theory Spec2Isabelle
  imports Main
begin

section \<open>Values, strings and errors\<close>

text \<open>
  Python values that cross the tool boundary: the tools return \<open>str\<close>, \<open>dict\<close> and
  \<open>list[dict]\<close>; a dict is kept as an association list in the order of the literal.
\<close>

datatype pyval =
    PNone
  | PBool bool
  | PInt int
  | PStr string
  | PList "pyval list"
  | PDict "(string \<times> pyval) list"

text \<open>
  A Python \<open>str\<close> is kept as a byte string, its UTF-8 text. \<open>str.upper\<close> is the Unicode
  case mapping of the language and is not defined here: it is the parameter \<open>upper\<close> of
  the environment below, so what is proved holds for the mapping whatever it does outside
  ASCII. \<open>ascii_upper\<close> is what \<open>str.upper\<close> does on ASCII text, where each of the letters
  a to z becomes its capital and every other character stays; the concrete runs, whose
  strings are ASCII, use it.
\<close>

definition ascii_lowercase :: string where
  "ascii_lowercase = ''abcdefghijklmnopqrstuvwxyz''"

definition ascii_uppercase :: string where
  "ascii_uppercase = ''ABCDEFGHIJKLMNOPQRSTUVWXYZ''"

definition upper_char :: "char \<Rightarrow> char" where
  "upper_char c =
     (case map_of (zip ascii_lowercase ascii_uppercase) c of
        None \<Rightarrow> c
      | Some u \<Rightarrow> u)"

definition ascii_upper :: "string \<Rightarrow> string" where
  "ascii_upper s = map upper_char s"

text \<open>
  Every raise of the source is a value. \<open>KeyError\<close> carries the key that was looked up;
  \<open>NotFound\<close> and \<open>InvalidArgument\<close> are the storage failures of the spec (sections 4.1,
  4.2, 7); \<open>CollaboratorFailure\<close> is a fatal failure of the model invocation.
\<close>

datatype error =
    KeyError string
  | NotFound
  | InvalidArgument
  | CollaboratorFailure

section \<open>The enums of src.database.models\<close>

text \<open>
  Modelled from the spec: the declaration of \<open>MessageRole\<close> is not part of the sources at
  hand. Section 3 gives its closed set of members, USER, ASSISTANT and SYSTEM;
  \<open>MessageRole_getitem\<close> is the lookup by member name, \<open>MessageRole[name]\<close>, which
  raises \<open>KeyError\<close> for every other name.
\<close>

datatype MessageRole = USER | ASSISTANT | SYSTEM

definition MessageRole_getitem :: "string \<Rightarrow> error + MessageRole" where
  "MessageRole_getitem n =
     (if n = ''USER'' then Inr USER
      else if n = ''ASSISTANT'' then Inr ASSISTANT
      else if n = ''SYSTEM'' then Inr SYSTEM
      else Inl (KeyError n))"

text \<open>
  Modelled from the spec: the declaration of \<open>ProjectStatus\<close> is not part of the sources
  at hand, and the spec names only two of its members. An enum member is its name and its
  value; the enum class is the list of its members, taken as a parameter of everything
  that uses it. \<open>ProjectStatus_getitem\<close> is \<open>ProjectStatus[name]\<close>.
\<close>

record enum_member =
  member_name :: string
  member_value :: pyval

definition ProjectStatus_getitem :: "enum_member list \<Rightarrow> string \<Rightarrow> error + enum_member" where
  "ProjectStatus_getitem members n =
     (case find (\<lambda>m. member_name m = n) members of
        None \<Rightarrow> Inl (KeyError n)
      | Some m \<Rightarrow> Inr m)"

type_synonym timestamp = nat

section \<open>Storage: projects and the ledger\<close>

text \<open>
  A UUID is kept as its canonical text, so \<open>str(project.id)\<close> is the identifier itself.
  The attributes of a project are those that \<open>get_project_context\<close> reads; the attribute
  \<open>id\<close> is written \<open>id'\<close>.
\<close>

type_synonym uuid = string

record project =
  id' :: uuid
  name :: pyval
  description :: pyval
  status :: enum_member
  github_repo_url :: pyval
  telegram_chat_id :: pyval
  vision_document :: "pyval option"
  created_at :: timestamp
  updated_at :: timestamp

record message =
  msg_project_id :: uuid
  role :: MessageRole
  content :: string
  timestamp :: timestamp

text \<open>
  The database session that every function of the source receives: the projects by
  id, the ledger of all messages in insertion order, and the clock reading that a write
  stamps on what it stores. The clock is an input: no function below advances it.
\<close>

record session =
  projects :: "uuid \<rightharpoonup> project"
  messages :: "message list"
  now :: timestamp

text \<open>
  Modelled from the spec: \<open>save_conversation_message\<close> of src.agent.tools is the ledger's
  \<open>append\<close> (section 4.1): it fails with \<open>NotFound\<close> if the project does not exist,
  otherwise it stores one new message at the end of the ledger.
\<close>

definition save_conversation_message ::
  "session \<Rightarrow> uuid \<Rightarrow> MessageRole \<Rightarrow> string \<Rightarrow> error + session" where
  "save_conversation_message s pid r c =
     (case projects s pid of
        None \<Rightarrow> Inl NotFound
      | Some _ \<Rightarrow>
          Inr (s\<lparr>messages := messages s @
                 [\<lparr>msg_project_id = pid, role = r, content = c, timestamp = now s\<rparr>]\<rparr>))"

text \<open>
  Modelled from the spec: \<open>get_conversation_history\<close> of src.agent.tools is the ledger's
  \<open>recent\<close> (section 4.1): a non-positive limit fails with \<open>InvalidArgument\<close>, an absent
  project with \<open>NotFound\<close>; otherwise the last \<open>limit\<close> messages of the project, oldest
  first.
\<close>

definition get_conversation_history ::
  "session \<Rightarrow> uuid \<Rightarrow> int \<Rightarrow> error + message list" where
  "get_conversation_history s pid limit =
     (if limit \<le> 0 then Inl InvalidArgument
      else case projects s pid of
        None \<Rightarrow> Inl NotFound
      | Some _ \<Rightarrow>
          (let ms = filter (\<lambda>m. msg_project_id m = pid) (messages s)
           in Inr (drop (length ms - nat limit) ms)))"

text \<open>
  Modelled from the spec: \<open>get_project\<close> of src.agent.tools is not part of the sources at
  hand. \<open>spec_get_project\<close> is the read as the spec words it, the \<open>get\<close> of section 4.2: it
  fails with \<open>NotFound\<close> if the project is absent and returns the project otherwise.
\<close>

definition spec_get_project :: "session \<Rightarrow> uuid \<Rightarrow> error + project option" where
  "spec_get_project s pid =
     (case projects s pid of
        None \<Rightarrow> Inl NotFound
      | Some p \<Rightarrow> Inr (Some p))"

text \<open>
  Modelled from the spec: \<open>update_project_status\<close> of src.agent.tools is the write of
  \<open>setStatus\<close> (section 4.2): it stores the new status and refreshes \<open>updated_at\<close>,
  whatever the previous status was. The spec leaves the absent project open; it is taken
  as the \<open>NotFound\<close> of section 7.
\<close>

definition update_project_status ::
  "session \<Rightarrow> uuid \<Rightarrow> enum_member \<Rightarrow> error + session" where
  "update_project_status s pid st =
     (case projects s pid of
        None \<Rightarrow> Inl NotFound
      | Some p \<Rightarrow>
          Inr (s\<lparr>projects := (projects s)(pid \<mapsto> p\<lparr>status := st, updated_at := now s\<rparr>)\<rparr>))"

text \<open>
  Modelled from the spec: \<open>update_project_vision\<close> of src.agent.tools is
  \<open>setVisionDocument\<close> (section 4.2): it replaces the document wholesale and fails with
  \<open>NotFound\<close> if the project is absent.
\<close>

definition update_project_vision ::
  "session \<Rightarrow> uuid \<Rightarrow> pyval \<Rightarrow> error + session" where
  "update_project_vision s pid doc =
     (case projects s pid of
        None \<Rightarrow> Inl NotFound
      | Some p \<Rightarrow>
          Inr (s\<lparr>projects :=
                 (projects s)(pid \<mapsto> p\<lparr>vision_document := Some doc, updated_at := now s\<rparr>)\<rparr>))"

section \<open>What the source uses without declaring it\<close>

text \<open>
  The parameters of the model: the members of \<open>ProjectStatus\<close>, the \<open>value\<close> of each
  message role, the rendering \<open>datetime.isoformat\<close>, the case mapping \<open>str.upper\<close>, and the
  read \<open>get_project\<close>. The read is called on the session and a project id and returns a
  project, returns \<open>None\<close>, or raises: its caller in the source tests the result with
  \<open>if not project\<close>, the spec has it fail with \<open>NotFound\<close>, and the tool is modelled for
  both.
\<close>

record env =
  ProjectStatus :: "enum_member list"
  role_value :: "MessageRole \<Rightarrow> pyval"
  isoformat :: "timestamp \<Rightarrow> string"
  upper :: "string \<Rightarrow> string"
  get_project :: "session \<Rightarrow> uuid \<Rightarrow> error + project option"

section \<open>The tools of orchestrator\_agent.py\<close>

text \<open>
  \<open>AgentDependencies\<close>: the session is threaded explicitly, the project binding is
  optional. A tool returns its value or raises, and leaves a session behind either way.
\<close>

record deps =
  project_id :: "uuid option"

type_synonym tool_outcome = "(error + pyval) \<times> session"

definition save_message :: "env \<Rightarrow> deps \<Rightarrow> string \<Rightarrow> string \<Rightarrow> session \<Rightarrow> tool_outcome" where
  "save_message E d role_str content_str s =
     (case project_id d of
        None \<Rightarrow> (Inr (PStr ''Error: No active project''), s)
      | Some pid \<Rightarrow>
          (case MessageRole_getitem (upper E role_str) of
             Inl e \<Rightarrow> (Inl e, s)
           | Inr role_enum \<Rightarrow>
               (case save_conversation_message s pid role_enum content_str of
                  Inl e \<Rightarrow> (Inl e, s)
                | Inr s' \<Rightarrow> (Inr (PStr (''Message saved as '' @ role_str)), s'))))"

definition get_project_context :: "env \<Rightarrow> deps \<Rightarrow> session \<Rightarrow> tool_outcome" where
  "get_project_context E d s =
     (case project_id d of
        None \<Rightarrow> (Inr (PDict [(''error'', PStr ''No active project'')]), s)
      | Some pid \<Rightarrow>
          (case get_project E s pid of
             Inl e \<Rightarrow> (Inl e, s)
           | Inr None \<Rightarrow> (Inr (PDict [(''error'', PStr ''Project not found'')]), s)
           | Inr (Some p) \<Rightarrow>
               (Inr (PDict
                  [(''id'', PStr (id' p)),
                   (''name'', name p),
                   (''description'', description p),
                   (''status'', member_value (status p)),
                   (''github_repo_url'', github_repo_url p),
                   (''telegram_chat_id'', telegram_chat_id p),
                   (''has_vision_document'', PBool (vision_document p \<noteq> None)),
                   (''created_at'', PStr (isoformat E (created_at p))),
                   (''updated_at'', PStr (isoformat E (updated_at p)))]), s)))"

definition message_snapshot :: "env \<Rightarrow> message \<Rightarrow> pyval" where
  "message_snapshot E m =
     PDict [(''role'', role_value E (role m)),
            (''content'', PStr (content m)),
            (''timestamp'', PStr (isoformat E (timestamp m)))]"

definition get_conversation :: "env \<Rightarrow> deps \<Rightarrow> int \<Rightarrow> session \<Rightarrow> tool_outcome" where
  "get_conversation E d limit s =
     (case project_id d of
        None \<Rightarrow> (Inr (PList [PDict [(''error'', PStr ''No active project'')]]), s)
      | Some pid \<Rightarrow>
          (case get_conversation_history s pid limit of
             Inl e \<Rightarrow> (Inl e, s)
           | Inr ms \<Rightarrow> (Inr (PList (map (message_snapshot E) ms)), s)))"

text \<open>
  \<open>update_status\<close>: the body of the \<open>try\<close> is \<open>attempt\<close>; \<open>except KeyError\<close> turns a
  \<open>KeyError\<close> raised anywhere in it into the rejection string, and lets every other
  outcome through.
\<close>

definition update_status :: "env \<Rightarrow> deps \<Rightarrow> string \<Rightarrow> session \<Rightarrow> tool_outcome" where
  "update_status E d new_status s =
     (case project_id d of
        None \<Rightarrow> (Inr (PStr ''Error: No active project''), s)
      | Some pid \<Rightarrow>
          (let attempt =
             (case ProjectStatus_getitem (ProjectStatus E) (upper E new_status) of
                Inl e \<Rightarrow> (Inl e, s)
              | Inr status_enum \<Rightarrow>
                  (case update_project_status s pid status_enum of
                     Inl e \<Rightarrow> (Inl e, s)
                   | Inr s' \<Rightarrow>
                       (Inr (PStr (''Project status updated to '' @ new_status)), s')))
           in case attempt of
                (Inl (KeyError k), s') \<Rightarrow>
                  (Inr (PStr (''Error: Invalid status '' @ [CHR 0x27] @ new_status @ [CHR 0x27])), s')
              | other \<Rightarrow> other))"

definition save_vision_document :: "deps \<Rightarrow> pyval \<Rightarrow> session \<Rightarrow> tool_outcome" where
  "save_vision_document d vision_doc s =
     (case project_id d of
        None \<Rightarrow> (Inr (PStr ''Error: No active project''), s)
      | Some pid \<Rightarrow>
          (case update_project_vision s pid vision_doc of
             Inl e \<Rightarrow> (Inl e, s)
           | Inr s' \<Rightarrow> (Inr (PStr ''Vision document saved successfully''), s')))"

section \<open>The agent and one turn\<close>

text \<open>
  The five tools registered on the agent, as the requests a model can make.
  \<open>get_conversation\<close> has the default \<open>limit = 20\<close>.
\<close>

datatype tool_call =
    SaveMessage string string
  | GetProjectContext
  | GetConversation "int option"
  | UpdateStatus string
  | SaveVisionDocument pyval

definition dispatch :: "env \<Rightarrow> deps \<Rightarrow> tool_call \<Rightarrow> session \<Rightarrow> tool_outcome" where
  "dispatch E d c s =
     (case c of
        SaveMessage r t \<Rightarrow> save_message E d r t s
      | GetProjectContext \<Rightarrow> get_project_context E d s
      | GetConversation l \<Rightarrow> get_conversation E d (case l of None \<Rightarrow> 20 | Some n \<Rightarrow> n) s
      | UpdateStatus n \<Rightarrow> update_status E d n s
      | SaveVisionDocument v \<Rightarrow> save_vision_document d v s)"

text \<open>
  The model behind \<open>orchestrator_agent.run\<close> is a black box that may only request tools:
  it ends with a reply, fails fatally (after whatever retries the library makes), or asks
  for a tool call and goes on from the result. An exception raised inside a tool function
  leaves \<open>run\<close> as that exception.
\<close>

datatype collaborator =
    Final string
  | Fatal
  | Invoke tool_call "pyval \<Rightarrow> collaborator"

primrec run_agent :: "collaborator \<Rightarrow> env \<Rightarrow> deps \<Rightarrow> session \<Rightarrow> (error + string) \<times> session" where
  "run_agent (Final reply) = (\<lambda>E d s. (Inr reply, s))"
| "run_agent Fatal = (\<lambda>E d s. (Inl CollaboratorFailure, s))"
| "run_agent (Invoke c k) =
     (\<lambda>E d s. case dispatch E d c s of
                 (Inl e, s') \<Rightarrow> (Inl e, s')
               | (Inr r, s') \<Rightarrow> run_agent (k r) E d s')"

definition run_orchestrator ::
  "env \<Rightarrow> (string \<Rightarrow> collaborator) \<Rightarrow> uuid \<Rightarrow> string \<Rightarrow> session \<Rightarrow> (error + string) \<times> session" where
  "run_orchestrator E orchestrator_agent pid user_message s =
     (let d = \<lparr>project_id = Some pid\<rparr> in
      case save_conversation_message s pid USER user_message of
        Inl e \<Rightarrow> (Inl e, s)
      | Inr s1 \<Rightarrow>
          (case run_agent (orchestrator_agent user_message) E d s1 of
             (Inl e, s2) \<Rightarrow> (Inl e, s2)
           | (Inr data, s2) \<Rightarrow>
               (case save_conversation_message s2 pid ASSISTANT data of
                  Inl e \<Rightarrow> (Inl e, s2)
                | Inr s3 \<Rightarrow> (Inr data, s3))))"

section \<open>What the tool calls of a run leave in the ledger\<close>

text \<open>
  For stating what a turn adds to the ledger: the tool calls of a run that returned, in
  order, and the message that such a call stored. Only \<open>save_message\<close> stores one.
\<close>

primrec completed_calls :: "collaborator \<Rightarrow> env \<Rightarrow> deps \<Rightarrow> session \<Rightarrow> tool_call list" where
  "completed_calls (Final reply) = (\<lambda>E d s. [])"
| "completed_calls Fatal = (\<lambda>E d s. [])"
| "completed_calls (Invoke c k) =
     (\<lambda>E d s. case dispatch E d c s of
                 (Inl e, s') \<Rightarrow> []
               | (Inr r, s') \<Rightarrow> c # completed_calls (k r) E d s')"

definition saved_by :: "env \<Rightarrow> uuid \<Rightarrow> timestamp \<Rightarrow> tool_call \<Rightarrow> message list" where
  "saved_by E pid t c =
     (case c of
        SaveMessage r txt \<Rightarrow>
          (case MessageRole_getitem (upper E r) of
             Inl e \<Rightarrow> []
           | Inr role_enum \<Rightarrow>
               [\<lparr>msg_project_id = pid, role = role_enum, content = txt, timestamp = t\<rparr>])
      | _ \<Rightarrow> [])"

definition tool_saved :: "env \<Rightarrow> collaborator \<Rightarrow> uuid \<Rightarrow> session \<Rightarrow> message list" where
  "tool_saved E c pid s =
     concat (map (saved_by E pid (now s)) (completed_calls c E \<lparr>project_id = Some pid\<rparr> s))"

section \<open>The snapshot as the spec words it\<close>

text \<open>
  Section 3 of the spec lists the fields of a project as id, status, visionDocument,
  externalRepoUrl, externalChatHandle, createdAt and updatedAt. \<open>spec_project_fields\<close>
  is that list under the keys of the snapshot, with the presence flag in the place of the
  vision document. \<open>snapshot_items\<close> reads the entries of a returned dict.
\<close>

definition spec_project_fields :: "string list" where
  "spec_project_fields =
     [''id'', ''status'', ''has_vision_document'', ''github_repo_url'', ''telegram_chat_id'',
      ''created_at'', ''updated_at'']"

definition snapshot_items :: "tool_outcome \<Rightarrow> (string \<times> pyval) list" where
  "snapshot_items r = (case fst r of Inr (PDict kvs) \<Rightarrow> kvs | _ \<Rightarrow> [])"

section \<open>Concrete inputs\<close>

text \<open>
  Modelled from the spec: the two members of \<open>ProjectStatus\<close> that the spec and the
  docstring of \<open>update_status\<close> name, with sample values, as the enum of the concrete runs
  below; a sample rendering of roles and of time stamps. \<open>sample_env\<close> reads projects as
  the spec words it; \<open>lenient_env\<close> differs in the read only, which there returns \<open>None\<close>
  for an absent project, as the test \<open>if not project\<close> of its caller expects.
\<close>

definition BRAINSTORMING :: enum_member where
  "BRAINSTORMING = \<lparr>member_name = ''BRAINSTORMING'', member_value = PStr ''brainstorming''\<rparr>"

definition VISION_REVIEW :: enum_member where
  "VISION_REVIEW = \<lparr>member_name = ''VISION_REVIEW'', member_value = PStr ''vision_review''\<rparr>"

definition sample_role_value :: "MessageRole \<Rightarrow> pyval" where
  "sample_role_value r =
     (case r of USER \<Rightarrow> PStr ''user'' | ASSISTANT \<Rightarrow> PStr ''assistant'' | SYSTEM \<Rightarrow> PStr ''system'')"

definition sample_isoformat :: "timestamp \<Rightarrow> string" where
  "sample_isoformat t = ''T+'' @ replicate t (CHR ''s'')"

definition sample_env :: env where
  "sample_env =
     \<lparr>ProjectStatus = [BRAINSTORMING, VISION_REVIEW],
      role_value = sample_role_value,
      isoformat = sample_isoformat,
      upper = ascii_upper,
      get_project = spec_get_project\<rparr>"



definition sample_project :: project where
  "sample_project =
     \<lparr>id' = ''p1'', name = PStr ''Demo'', description = PNone, status = BRAINSTORMING,
      github_repo_url = PNone, telegram_chat_id = PInt 42, vision_document = None,
      created_at = 1, updated_at = 1\<rparr>"

text \<open>One project, an empty ledger, the clock at 5.\<close>

definition sample_session :: session where
  "sample_session = \<lparr>projects = [''p1'' \<mapsto> sample_project], messages = [], now = 5\<rparr>"

definition bound_deps :: deps where
  "bound_deps = \<lparr>project_id = Some ''p1''\<rparr>"

definition stray_deps :: deps where
  "stray_deps = \<lparr>project_id = Some ''p2''\<rparr>"

text \<open>
  Four collaborators: one replies at once, one fails at once, one saves a system note
  through \<open>save_message\<close> and then replies, one saves a draft as assistant and then
  fails.
\<close>

definition plain_agent :: "string \<Rightarrow> collaborator" where
  "plain_agent user_message = Final ''hello''"

definition failing_agent :: "string \<Rightarrow> collaborator" where
  "failing_agent user_message = Fatal"

definition noting_reply :: "pyval \<Rightarrow> collaborator" where
  "noting_reply r = Final ''noted''"

definition noting_agent :: "string \<Rightarrow> collaborator" where
  "noting_agent user_message = Invoke (SaveMessage ''system'' ''remember this'') noting_reply"

definition drafting_failure :: "pyval \<Rightarrow> collaborator" where
  "drafting_failure r = Fatal"

definition drafting_agent :: "string \<Rightarrow> collaborator" where
  "drafting_agent user_message = Invoke (SaveMessage ''assistant'' ''draft'') drafting_failure"

lemmas sample_defs =
  sample_env_def sample_project_def sample_session_def bound_deps_def stray_deps_def
  BRAINSTORMING_def VISION_REVIEW_def sample_role_value_def sample_isoformat_def

lemmas upper_defs = ascii_upper_def upper_char_def ascii_lowercase_def ascii_uppercase_def

section \<open>Upper-casing\<close>

lemma cases_disjoint: "set ascii_uppercase \<inter> set ascii_lowercase = {}"
  by (simp add: ascii_lowercase_def ascii_uppercase_def)

lemma uppercase_not_lowercase:
  assumes "u \<in> set ascii_uppercase"
  shows "map_of (zip ascii_lowercase ascii_uppercase) u = None"
proof -
  have "length ascii_lowercase = length ascii_uppercase"
    by (simp add: ascii_lowercase_def ascii_uppercase_def)
  then have "fst ` set (zip ascii_lowercase ascii_uppercase) = set ascii_lowercase"
    by (metis map_fst_zip set_map)
  moreover have "u \<notin> set ascii_lowercase"
    using assms cases_disjoint by blast
  ultimately show ?thesis by (simp add: map_of_eq_None_iff)
qed

lemma upper_char_idem: "upper_char (upper_char c) = upper_char c"
proof (cases "map_of (zip ascii_lowercase ascii_uppercase) c")
  case None
  then show ?thesis by (simp add: upper_char_def)
next
  case (Some u)
  then have "u \<in> set ascii_uppercase"
    by (auto dest!: map_of_SomeD set_zip_rightD)
  then have "map_of (zip ascii_lowercase ascii_uppercase) u = None"
    by (rule uppercase_not_lowercase)
  with Some show ?thesis by (simp add: upper_char_def)
qed

lemma ascii_upper_idem: "ascii_upper (ascii_upper s) = ascii_upper s"
  by (simp add: ascii_upper_def upper_char_idem)

section \<open>Tools without a project binding\<close>

text \<open>
  C5. A tool called without an active project (\<open>project_id\<close> is \<open>None\<close>) returns its
  error value, a string, a dict or a one-element list with the key \<open>error\<close>, raises
  nothing, and leaves the session, ledger and projects, as it was.
\<close>

theorem tool_without_project_is_nonfatal_and_pure:
  "fst (dispatch E \<lparr>project_id = None\<rparr> c s)
     \<in> {Inr (PStr ''Error: No active project''),
        Inr (PDict [(''error'', PStr ''No active project'')]),
        Inr (PList [PDict [(''error'', PStr ''No active project'')]])}
   \<and> snd (dispatch E \<lparr>project_id = None\<rparr> c s) = s"
  by (cases c)
     (simp_all add: dispatch_def save_message_def get_project_context_def
        get_conversation_def update_status_def save_vision_document_def)

section \<open>save\_message with an unknown role\<close>

text \<open>
  C1. The claim: with a project bound, a role string that names no member of the role
  enum makes \<open>save_message\<close> return a descriptive string, append nothing and raise
  nothing. The source has no handler around \<open>MessageRole[role.upper()]\<close>, unlike
  \<open>update_status\<close>: at the role \<open>moderator\<close> the tool raises \<open>KeyError\<close>. Nothing is
  appended; the session is as before.
\<close>

theorem save_message_unknown_role_raises_KeyError:
  "save_message sample_env bound_deps ''moderator'' ''hello'' sample_session =
     (Inl (KeyError ''MODERATOR''), sample_session)"
  by (simp add: save_message_def bound_deps_def MessageRole_getitem_def sample_env_def
        upper_defs)

section \<open>update\_status\<close>

lemma getitem_no_match:
  assumes "\<forall>m \<in> set members. u n \<noteq> u (member_name m)"
    and "u (u n) = u n"
  shows "ProjectStatus_getitem members (u n) = Inl (KeyError (u n))"
proof -
  have "find (\<lambda>m. member_name m = u n) members = None"
  proof (rule ccontr)
    assume "find (\<lambda>m. member_name m = u n) members \<noteq> None"
    then obtain m where m: "m \<in> set members" "member_name m = u n"
      by (auto simp: find_None_iff)
    then have "u (member_name m) = u n" by (simp add: assms(2))
    with assms(1) m(1) show False by auto
  qed
  then show ?thesis by (simp add: ProjectStatus_getitem_def)
qed

lemma update_status_accepts:
  assumes "project_id d = Some pid"
    and "projects s pid = Some p"
    and "ProjectStatus_getitem (ProjectStatus E) n = Inr m"
    and "upper E n = n"
    and "upper E cand = upper E n"
  shows "update_status E d cand s =
           (Inr (PStr (''Project status updated to '' @ cand)),
            s\<lparr>projects := (projects s)(pid \<mapsto> p\<lparr>status := m, updated_at := now s\<rparr>)\<rparr>)"
proof -
  have "ProjectStatus_getitem (ProjectStatus E) (upper E cand) = Inr m"
    using assms(3-5) by simp
  then show ?thesis
    using assms(1,2) by (simp add: update_status_def update_project_status_def)
qed

text \<open>
  C2. With a project bound, a candidate name that matches no member name of the status
  enum when both are upper-cased by \<open>str.upper\<close> makes \<open>update_status\<close> return the
  rejection string \<open>Error: Invalid status '...'\<close> with the candidate as it was given; the
  session, and so the status of the project, is unchanged, and nothing is raised. The
  case mapping is any function that maps the upper-cased candidate to itself, as
  \<open>str.upper\<close> does with every string.
\<close>

theorem update_status_rejects_unknown_name:
  assumes "project_id d = Some pid"
    and "\<forall>m \<in> set (ProjectStatus E). upper E new_status \<noteq> upper E (member_name m)"
    and "upper E (upper E new_status) = upper E new_status"
  shows "update_status E d new_status s =
           (Inr (PStr (''Error: Invalid status '' @ [CHR 0x27] @ new_status @ [CHR 0x27])), s)"
  using assms(1) getitem_no_match [of "ProjectStatus E" "upper E" new_status, OF assms(2,3)]
  by (simp add: update_status_def)

theorem update_status_rejects_unknown_name_witness:
  "project_id bound_deps = Some ''p1''
   \<and> update_status sample_env bound_deps ''shipping'' sample_session =
       (Inr (PStr (''Error: Invalid status '' @ [CHR 0x27] @ ''shipping'' @ [CHR 0x27])),
        sample_session)"
proof -
  have bound: "project_id bound_deps = Some ''p1''"
    by (simp add: bound_deps_def)
  have unknown:
    "\<forall>m \<in> set (ProjectStatus sample_env).
       upper sample_env ''shipping'' \<noteq> upper sample_env (member_name m)"
    by (simp add: sample_defs upper_defs)
  have twice:
    "upper sample_env (upper sample_env ''shipping'') = upper sample_env ''shipping''"
    by (simp add: sample_env_def ascii_upper_idem)
  show ?thesis
    using bound update_status_rejects_unknown_name [OF bound unknown twice, of sample_session]
    by simp
qed

text \<open>
  C6. Let \<open>m\<close> be the member of the status enum named \<open>n\<close>, the name in capitals as
  enum names are (\<open>str.upper\<close> leaves it as it is), and let the candidate be any spelling of
  \<open>n\<close> up to letter case (\<open>str.upper\<close> maps both to the same). On a
  bound, existing project \<open>update_status\<close> returns the confirmation
  \<open>Project status updated to ...\<close>, and the only change to the session is that the
  project has the status \<open>m\<close> and \<open>updated_at\<close> equal to the clock.
\<close>

theorem update_status_sets_member_and_refreshes:
  assumes "project_id d = Some pid"
    and "projects s pid = Some p"
    and "ProjectStatus_getitem (ProjectStatus E) n = Inr m"
    and "upper E n = n"
    and "upper E cand = upper E n"
  shows "update_status E d cand s =
           (Inr (PStr (''Project status updated to '' @ cand)),
            s\<lparr>projects := (projects s)(pid \<mapsto> p\<lparr>status := m, updated_at := now s\<rparr>)\<rparr>)"
  using assms by (rule update_status_accepts)

theorem update_status_sets_member_and_refreshes_witness:
  "update_status sample_env bound_deps ''Vision_Review'' sample_session =
     (Inr (PStr ''Project status updated to Vision_Review''),
      sample_session\<lparr>projects :=
        [''p1'' \<mapsto> sample_project\<lparr>status := VISION_REVIEW, updated_at := 5\<rparr>]\<rparr>)"
proof -
  have bound: "project_id bound_deps = Some ''p1''"
    by (simp add: bound_deps_def)
  have stored: "projects sample_session ''p1'' = Some sample_project"
    by (simp add: sample_session_def)
  have member:
    "ProjectStatus_getitem (ProjectStatus sample_env) ''VISION_REVIEW'' = Inr VISION_REVIEW"
    by (simp add: ProjectStatus_getitem_def sample_env_def BRAINSTORMING_def VISION_REVIEW_def)
  have capital: "upper sample_env ''VISION_REVIEW'' = ''VISION_REVIEW''"
    by (simp add: sample_env_def upper_defs)
  have spelling: "upper sample_env ''Vision_Review'' = upper sample_env ''VISION_REVIEW''"
    by (simp add: sample_env_def upper_defs)
  show ?thesis
    using update_status_sets_member_and_refreshes [OF bound stored member capital spelling]
    by (simp add: sample_session_def)
qed

text \<open>
  C7. Whatever status \<open>cur\<close> the bound, existing project has, \<open>update_status\<close> with a
  spelling of the target member's name returns the confirmation and leaves the project
  with the target status: the current status plays no part in the acceptance.
\<close>

theorem update_status_ignores_current_status:
  assumes "project_id d = Some pid"
    and "projects s pid = Some p"
    and "ProjectStatus_getitem (ProjectStatus E) n = Inr target"
    and "upper E n = n"
    and "upper E cand = upper E n"
  shows "fst (update_status E d cand (s\<lparr>projects := (projects s)(pid \<mapsto> p\<lparr>status := cur\<rparr>)\<rparr>))
           = Inr (PStr (''Project status updated to '' @ cand))
         \<and> map_option status
               (projects (snd (update_status E d cand
                  (s\<lparr>projects := (projects s)(pid \<mapsto> p\<lparr>status := cur\<rparr>)\<rparr>))) pid)
             = Some target"
proof -
  let ?s = "s\<lparr>projects := (projects s)(pid \<mapsto> p\<lparr>status := cur\<rparr>)\<rparr>"
  have "projects ?s pid = Some (p\<lparr>status := cur\<rparr>)" by simp
  from update_status_accepts [OF assms(1) this assms(3-5)]
  show ?thesis by simp
qed

theorem update_status_ignores_current_status_witness:
  "fst (update_status sample_env bound_deps ''brainstorming''
          (sample_session\<lparr>projects :=
             (projects sample_session)(''p1'' \<mapsto> sample_project\<lparr>status := VISION_REVIEW\<rparr>)\<rparr>))
     = Inr (PStr ''Project status updated to brainstorming'')
   \<and> map_option status
         (projects (snd (update_status sample_env bound_deps ''brainstorming''
            (sample_session\<lparr>projects :=
               (projects sample_session)(''p1'' \<mapsto> sample_project\<lparr>status := VISION_REVIEW\<rparr>)\<rparr>)))
            ''p1'')
       = Some BRAINSTORMING"
proof -
  have bound: "project_id bound_deps = Some ''p1''"
    by (simp add: bound_deps_def)
  have stored: "projects sample_session ''p1'' = Some sample_project"
    by (simp add: sample_session_def)
  have member:
    "ProjectStatus_getitem (ProjectStatus sample_env) ''BRAINSTORMING'' = Inr BRAINSTORMING"
    by (simp add: ProjectStatus_getitem_def sample_env_def BRAINSTORMING_def VISION_REVIEW_def)
  have capital: "upper sample_env ''BRAINSTORMING'' = ''BRAINSTORMING''"
    by (simp add: sample_env_def upper_defs)
  have spelling: "upper sample_env ''brainstorming'' = upper sample_env ''BRAINSTORMING''"
    by (simp add: sample_env_def upper_defs)
  show ?thesis
    using update_status_ignores_current_status
            [OF bound stored member capital spelling, of VISION_REVIEW]
    by simp
qed

section \<open>get\_project\_context\<close>




text \<open>
  C8, as the claim states it: the snapshot holds exactly the fields that section 3 of the
  spec lists. It does not: for the sample project the snapshot has the key \<open>name\<close>,
  which is not among them.
\<close>

theorem get_project_context_extra_field_counterexample:
  "''name'' \<in> set (map fst (snapshot_items (get_project_context sample_env bound_deps sample_session)))
   \<and> ''name'' \<notin> set spec_project_fields"
  by (simp add: snapshot_items_def get_project_context_def spec_get_project_def
        spec_project_fields_def sample_env_def sample_session_def bound_deps_def)

text \<open>
  C8, amended. For a bound project \<open>p\<close> that the read returns, the snapshot is the dict
  with exactly the nine keys id, name, description, status, github\_repo\_url,
  telegram\_chat\_id, has\_vision\_document, created\_at and updated\_at, in this order,
  each with the value of that attribute of \<open>p\<close>: the id as text, the \<open>value\<close> of the
  status, the two time stamps through \<open>isoformat\<close>, and for \<open>has_vision_document\<close> the
  boolean that says whether a vision document is stored, in the place of the document,
  whose contents are nowhere in the snapshot. The session is unchanged.
\<close>

theorem get_project_context_snapshot:
  assumes "project_id d = Some pid"
    and "get_project E s pid = Inr (Some p)"
  shows "get_project_context E d s =
           (Inr (PDict
              [(''id'', PStr (id' p)),
               (''name'', name p),
               (''description'', description p),
               (''status'', member_value (status p)),
               (''github_repo_url'', github_repo_url p),
               (''telegram_chat_id'', telegram_chat_id p),
               (''has_vision_document'', PBool (vision_document p \<noteq> None)),
               (''created_at'', PStr (isoformat E (created_at p))),
               (''updated_at'', PStr (isoformat E (updated_at p)))]), s)"
  using assms by (simp add: get_project_context_def)

theorem get_project_context_snapshot_witness:
  "get_project_context sample_env bound_deps sample_session =
     (Inr (PDict
        [(''id'', PStr ''p1''),
         (''name'', PStr ''Demo''),
         (''description'', PNone),
         (''status'', PStr ''brainstorming''),
         (''github_repo_url'', PNone),
         (''telegram_chat_id'', PInt 42),
         (''has_vision_document'', PBool False),
         (''created_at'', PStr ''T+s''),
         (''updated_at'', PStr ''T+s'')]), sample_session)"
proof -
  have bound: "project_id bound_deps = Some ''p1''"
    by (simp add: bound_deps_def)
  have stored: "get_project sample_env sample_session ''p1'' = Inr (Some sample_project)"
    by (simp add: sample_env_def spec_get_project_def sample_session_def)
  show ?thesis
    using get_project_context_snapshot [OF bound stored]
    by (simp add: sample_project_def BRAINSTORMING_def sample_env_def sample_isoformat_def)
qed

section \<open>One turn\<close>

lemma dispatch_raise_keeps_session:
  "dispatch E d c s = (Inl e, s') \<Longrightarrow> s' = s"
  by (cases c)
     (auto simp: dispatch_def save_message_def get_project_context_def get_conversation_def
        update_status_def save_vision_document_def Let_def
        split: option.splits sum.splits error.splits)

lemma dispatch_return_ledger:
  assumes "project_id d = Some pid"
    and "dispatch E d c s = (Inr r, s')"
  shows "messages s' = messages s @ saved_by E pid (now s) c \<and> now s' = now s"
  using assms
  by (cases c)
     (auto simp: dispatch_def save_message_def get_project_context_def get_conversation_def
        update_status_def save_vision_document_def Let_def saved_by_def
        save_conversation_message_def update_project_status_def update_project_vision_def
        split: option.splits sum.splits error.splits)

lemma run_agent_ledger:
  assumes "project_id d = Some pid"
  shows "messages (snd (run_agent c E d s)) =
           messages s @ concat (map (saved_by E pid (now s)) (completed_calls c E d s))
         \<and> now (snd (run_agent c E d s)) = now s"
proof (induction c arbitrary: s)
  case (Final reply)
  show ?case by simp
next
  case Fatal
  show ?case by simp
next
  case (Invoke c k)
  show ?case
  proof (cases "dispatch E d c s")
    case (Pair res s')
    show ?thesis
    proof (cases res)
      case (Inl e)
      with Pair have "s' = s" by (auto dest: dispatch_raise_keeps_session)
      with Pair Inl show ?thesis by simp
    next
      case (Inr r)
      with Pair have step: "messages s' = messages s @ saved_by E pid (now s) c" "now s' = now s"
        using dispatch_return_ledger [OF assms, of E c s r s'] by simp_all
      have "k r \<in> range k" by simp
      from Invoke.IH [OF this, of s'] Pair Inr step show ?thesis by simp
    qed
  qed
qed

lemma run_orchestrator_success:
  assumes "run_orchestrator E agent pid user_message s = (Inr reply, s')"
  obtains s1 s2 where "save_conversation_message s pid USER user_message = Inr s1"
    and "run_agent (agent user_message) E \<lparr>project_id = Some pid\<rparr> s1 = (Inr reply, s2)"
    and "save_conversation_message s2 pid ASSISTANT reply = Inr s'"
  using assms
  by (auto simp: run_orchestrator_def Let_def split: sum.splits prod.splits)

lemma append_ledger:
  "save_conversation_message s pid r c = Inr s' \<Longrightarrow>
     s' = s\<lparr>messages := messages s @
            [\<lparr>msg_project_id = pid, role = r, content = c, timestamp = now s\<rparr>]\<rparr>"
  by (auto simp: save_conversation_message_def split: option.splits)

text \<open>
  C3, as the claim states it: a successful turn adds exactly two messages, USER then
  ASSISTANT. It does not when the collaborator uses the tool \<open>save_message\<close>: the turn
  below succeeds with the reply \<open>noted\<close> and adds three messages.
\<close>

theorem run_orchestrator_three_messages_counterexample:
  "fst (run_orchestrator sample_env noting_agent ''p1'' ''hi'' sample_session) = Inr ''noted''
   \<and> messages (snd (run_orchestrator sample_env noting_agent ''p1'' ''hi'' sample_session)) =
       messages sample_session @
       [\<lparr>msg_project_id = ''p1'', role = USER, content = ''hi'', timestamp = 5\<rparr>,
        \<lparr>msg_project_id = ''p1'', role = SYSTEM, content = ''remember this'', timestamp = 5\<rparr>,
        \<lparr>msg_project_id = ''p1'', role = ASSISTANT, content = ''noted'', timestamp = 5\<rparr>]"
  by (simp add: run_orchestrator_def noting_agent_def noting_reply_def dispatch_def
        save_message_def save_conversation_message_def MessageRole_getitem_def
        sample_session_def sample_env_def upper_defs)

text \<open>
  C3, amended. A successful turn returns the reply that the collaborator gave on the
  session with the user message appended, and its ledger is the
  one before, then the user text as a USER message, then the messages that the
  collaborator's own \<open>save_message\<close> calls stored, then the reply as an ASSISTANT
  message. When the collaborator stored none, the turn adds exactly two messages, USER
  then ASSISTANT.
\<close>

theorem run_orchestrator_success_ledger:
  assumes "run_orchestrator E agent pid user_message s = (Inr reply, s')"
  shows "fst (run_agent (agent user_message) E \<lparr>project_id = Some pid\<rparr>
               (s\<lparr>messages := messages s @
                  [\<lparr>msg_project_id = pid, role = USER, content = user_message,
                    timestamp = now s\<rparr>]\<rparr>)) = Inr reply
         \<and> messages s' =
           messages s
           @ [\<lparr>msg_project_id = pid, role = USER, content = user_message, timestamp = now s\<rparr>]
           @ tool_saved E (agent user_message) pid
               (s\<lparr>messages := messages s @
                  [\<lparr>msg_project_id = pid, role = USER, content = user_message,
                    timestamp = now s\<rparr>]\<rparr>)
           @ [\<lparr>msg_project_id = pid, role = ASSISTANT, content = reply, timestamp = now s\<rparr>]
         \<and> (tool_saved E (agent user_message) pid
               (s\<lparr>messages := messages s @
                  [\<lparr>msg_project_id = pid, role = USER, content = user_message,
                    timestamp = now s\<rparr>]\<rparr>) = []
              \<longrightarrow> messages s' =
                    messages s
                    @ [\<lparr>msg_project_id = pid, role = USER, content = user_message,
                         timestamp = now s\<rparr>,
                       \<lparr>msg_project_id = pid, role = ASSISTANT, content = reply,
                         timestamp = now s\<rparr>])"
proof -
  let ?d = "\<lparr>project_id = Some pid\<rparr>"
  from assms obtain s1 s2 where
    first: "save_conversation_message s pid USER user_message = Inr s1" and
    run: "run_agent (agent user_message) E ?d s1 = (Inr reply, s2)" and
    second: "save_conversation_message s2 pid ASSISTANT reply = Inr s'"
    by (rule run_orchestrator_success)
  have s1: "s1 = s\<lparr>messages := messages s @
      [\<lparr>msg_project_id = pid, role = USER, content = user_message, timestamp = now s\<rparr>]\<rparr>"
    using first by (rule append_ledger)
  have bound: "project_id ?d = Some pid" by simp
  have mid: "messages s2 = messages s1 @ tool_saved E (agent user_message) pid s1"
    "now s2 = now s1"
    using run_agent_ledger [OF bound, of "agent user_message" E s1] run
    by (simp_all add: tool_saved_def)
  have "s' = s2\<lparr>messages := messages s2 @
      [\<lparr>msg_project_id = pid, role = ASSISTANT, content = reply, timestamp = now s2\<rparr>]\<rparr>"
    using second by (rule append_ledger)
  with mid s1 run show ?thesis by simp
qed

theorem run_orchestrator_success_ledger_witness:
  "messages (snd (run_orchestrator sample_env plain_agent ''p1'' ''hi'' sample_session)) =
     messages sample_session @
     [\<lparr>msg_project_id = ''p1'', role = USER, content = ''hi'', timestamp = 5\<rparr>,
      \<lparr>msg_project_id = ''p1'', role = ASSISTANT, content = ''hello'', timestamp = 5\<rparr>]"
proof -
  have turn: "run_orchestrator sample_env plain_agent ''p1'' ''hi'' sample_session =
      (Inr ''hello'', snd (run_orchestrator sample_env plain_agent ''p1'' ''hi'' sample_session))"
    by (simp add: run_orchestrator_def plain_agent_def save_conversation_message_def
          sample_session_def)
  have quiet: "tool_saved sample_env (plain_agent ''hi'') ''p1''
      (sample_session\<lparr>messages := messages sample_session @
         [\<lparr>msg_project_id = ''p1'', role = USER, content = ''hi'',
           timestamp = now sample_session\<rparr>]\<rparr>) = []"
    by (simp add: tool_saved_def plain_agent_def)
  have clock: "now sample_session = 5"
    by (simp add: sample_session_def)
  show ?thesis
    using run_orchestrator_success_ledger [OF turn] quiet clock by simp
qed

text \<open>
  C4, as the claim states it: when the collaborator fails after the user message was
  appended, the turn ends with no ASSISTANT message appended. It does not when the
  collaborator stored one itself through \<open>save_message\<close> before it failed: the turn
  below fails and its ledger holds the USER message and an ASSISTANT message.
\<close>

theorem run_orchestrator_failure_keeps_saved_draft_counterexample:
  "fst (run_orchestrator sample_env drafting_agent ''p1'' ''hi'' sample_session)
     = Inl CollaboratorFailure
   \<and> messages (snd (run_orchestrator sample_env drafting_agent ''p1'' ''hi'' sample_session)) =
       messages sample_session @
       [\<lparr>msg_project_id = ''p1'', role = USER, content = ''hi'', timestamp = 5\<rparr>,
        \<lparr>msg_project_id = ''p1'', role = ASSISTANT, content = ''draft'', timestamp = 5\<rparr>]"
  by (simp add: run_orchestrator_def drafting_agent_def drafting_failure_def dispatch_def
        save_message_def save_conversation_message_def MessageRole_getitem_def
        sample_session_def sample_env_def upper_defs)

text \<open>
  C4, amended. When the user message was appended and the run of the collaborator then
  fails, the turn fails with that error and appends no reply: the session is the one the
  failed run left, whose ledger is the one before, then the USER message, then only the
  messages that the collaborator's own \<open>save_message\<close> calls stored before the failure.
  When it stored none, the USER message is all that the turn added.
\<close>

theorem run_orchestrator_collaborator_failure_ledger:
  assumes "save_conversation_message s pid USER user_message = Inr s1"
    and "run_agent (agent user_message) E \<lparr>project_id = Some pid\<rparr> s1 = (Inl e, s2)"
  shows "run_orchestrator E agent pid user_message s = (Inl e, s2)
         \<and> messages s2 =
             messages s
             @ [\<lparr>msg_project_id = pid, role = USER, content = user_message, timestamp = now s\<rparr>]
             @ tool_saved E (agent user_message) pid s1
         \<and> (tool_saved E (agent user_message) pid s1 = []
              \<longrightarrow> messages s2 =
                    messages s
                    @ [\<lparr>msg_project_id = pid, role = USER, content = user_message,
                         timestamp = now s\<rparr>])"
proof -
  let ?d = "\<lparr>project_id = Some pid\<rparr>"
  have s1: "s1 = s\<lparr>messages := messages s @
      [\<lparr>msg_project_id = pid, role = USER, content = user_message, timestamp = now s\<rparr>]\<rparr>"
    using assms(1) by (rule append_ledger)
  have bound: "project_id ?d = Some pid" by simp
  have mid: "messages s2 = messages s1 @ tool_saved E (agent user_message) pid s1"
    using run_agent_ledger [OF bound, of "agent user_message" E s1] assms(2)
    by (simp add: tool_saved_def)
  have abort: "run_orchestrator E agent pid user_message s = (Inl e, s2)"
    using assms by (simp add: run_orchestrator_def)
  from abort mid s1 show ?thesis by simp
qed

theorem run_orchestrator_collaborator_failure_ledger_witness:
  "run_orchestrator sample_env failing_agent ''p1'' ''hi'' sample_session =
     (Inl CollaboratorFailure,
      sample_session\<lparr>messages :=
        [\<lparr>msg_project_id = ''p1'', role = USER, content = ''hi'', timestamp = 5\<rparr>]\<rparr>)"
proof -
  have first: "save_conversation_message sample_session ''p1'' USER ''hi'' =
      Inr (sample_session\<lparr>messages :=
        [\<lparr>msg_project_id = ''p1'', role = USER, content = ''hi'', timestamp = 5\<rparr>]\<rparr>)"
    by (simp add: save_conversation_message_def sample_session_def)
  have run: "run_agent (failing_agent ''hi'') sample_env \<lparr>project_id = Some ''p1''\<rparr>
      (sample_session\<lparr>messages :=
        [\<lparr>msg_project_id = ''p1'', role = USER, content = ''hi'', timestamp = 5\<rparr>]\<rparr>) =
      (Inl CollaboratorFailure,
       sample_session\<lparr>messages :=
        [\<lparr>msg_project_id = ''p1'', role = USER, content = ''hi'', timestamp = 5\<rparr>]\<rparr>)"
    by (simp add: failing_agent_def)
  show ?thesis
    using run_orchestrator_collaborator_failure_ledger
            [where agent = failing_agent and user_message = "''hi''", OF first run]
    by simp
qed

text \<open>
  C10. After a successful turn the last message of the ledger is the ASSISTANT message
  of the turn's project, and its content is the reply that the turn returned.
\<close>

theorem run_orchestrator_reply_is_last_assistant_message:
  assumes "run_orchestrator E agent pid user_message s = (Inr reply, s')"
  shows "messages s' \<noteq> []
         \<and> last (messages s') =
             \<lparr>msg_project_id = pid, role = ASSISTANT, content = reply, timestamp = now s'\<rparr>"
proof -
  from assms obtain s1 s2 where
    "save_conversation_message s pid USER user_message = Inr s1" and
    "run_agent (agent user_message) E \<lparr>project_id = Some pid\<rparr> s1 = (Inr reply, s2)" and
    second: "save_conversation_message s2 pid ASSISTANT reply = Inr s'"
    by (rule run_orchestrator_success)
  from second have "s' = s2\<lparr>messages := messages s2 @
      [\<lparr>msg_project_id = pid, role = ASSISTANT, content = reply, timestamp = now s2\<rparr>]\<rparr>"
    by (rule append_ledger)
  then show ?thesis by simp
qed

theorem run_orchestrator_reply_is_last_assistant_message_witness:
  "last (messages (snd (run_orchestrator sample_env noting_agent ''p1'' ''hi'' sample_session))) =
     \<lparr>msg_project_id = ''p1'', role = ASSISTANT, content = ''noted'', timestamp = 5\<rparr>"
proof -
  have turn: "run_orchestrator sample_env noting_agent ''p1'' ''hi'' sample_session =
      (Inr ''noted'', snd (run_orchestrator sample_env noting_agent ''p1'' ''hi'' sample_session))"
    by (simp add: run_orchestrator_def noting_agent_def noting_reply_def dispatch_def
        save_message_def save_conversation_message_def MessageRole_getitem_def
        sample_session_def sample_env_def upper_defs)
  have clock: "now (snd (run_orchestrator sample_env noting_agent ''p1'' ''hi'' sample_session)) = 5"
    by (simp add: run_orchestrator_def noting_agent_def noting_reply_def dispatch_def
        save_message_def save_conversation_message_def MessageRole_getitem_def
        sample_session_def sample_env_def upper_defs)
  show ?thesis
    using run_orchestrator_reply_is_last_assistant_message [OF turn] clock by simp
qed

end
